theory Spec2Isabelle
  imports Main "HOL-Library.Sublist"
begin

section \<open>Data model of \<^verbatim>\<open>docker_config.py\<close>\<close>

text \<open>
  A Python dict with string keys and string values is a map. Dict objects are mutable and
  shared by reference, so an instance holds the identity of its environment dict and the
  contents live in a store. Opaque collaborators (a docker client, the network, the
  account) are object identities.
\<close>

type_synonym dict = "string \<rightharpoonup> string"
type_synonym ref = nat
type_synonym store = "ref \<Rightarrow> dict"
type_synonym DockerClient = nat
type_synonym Account = nat

text \<open>The process environment, \<^verbatim>\<open>os.environ\<close>.\<close>

type_synonym environ = "string \<rightharpoonup> string"

text \<open>
  The fields of the dataclass, lines 25 to 42, in the order of the source. Python does not
  check the annotations, and the class stores the two required fields without looking at
  them (only \<^verbatim>\<open>node_command_options\<close> reads the private key, as a string). The record
  is therefore polymorphic in these two fields: a caller can pass any object for them,
  \<^verbatim>\<open>None\<close> included.
\<close>

record ('client, 'key) DockerConfig =
  docker_client :: 'client
  node_private_key :: 'key
  node_public_key :: "string option"
  node_env :: "ref option"
  network :: "nat option"
  number :: int
  rand_str :: "string option"
  command_timeout :: int
  mem_limit :: string
  is_bootstrap :: bool
  is_validator :: bool
  is_signed_deploy :: bool
  bootstrap_address :: "string option"
  initial_motes :: int
  socket_volume :: "string option"
  node_account :: "Account option"
  grpc_encryption :: bool
  is_read_only :: bool

text \<open>
  The keyword arguments of a constructor call: \<open>None\<close> is an argument the caller
  left out, so that the field's default of the source applies.
\<close>

record kwargs =
  kw_node_public_key :: "string option"
  kw_node_env :: "ref option"
  kw_network :: "nat option"
  kw_number :: "int option"
  kw_rand_str :: "string option"
  kw_command_timeout :: "int option"
  kw_mem_limit :: "string option"
  kw_is_bootstrap :: "bool option"
  kw_is_validator :: "bool option"
  kw_is_signed_deploy :: "bool option"
  kw_bootstrap_address :: "string option"
  kw_initial_motes :: "int option"
  kw_socket_volume :: "string option"
  kw_node_account :: "Account option"
  kw_grpc_encryption :: "bool option"
  kw_is_read_only :: "bool option"

definition no_kwargs :: kwargs where
  "no_kwargs = \<lparr>kw_node_public_key = None, kw_node_env = None, kw_network = None,
     kw_number = None, kw_rand_str = None, kw_command_timeout = None, kw_mem_limit = None,
     kw_is_bootstrap = None, kw_is_validator = None, kw_is_signed_deploy = None,
     kw_bootstrap_address = None, kw_initial_motes = None, kw_socket_volume = None,
     kw_node_account = None, kw_grpc_encryption = None, kw_is_read_only = None\<rparr>"

section \<open>The module's global and the constructor\<close>

text \<open>
  \<^verbatim>\<open>DEFAULT_NODE_ENV\<close> (lines 11 to 16) is one dict object, created when the module is
  imported; \<^verbatim>\<open>CL_LOG_LEVEL\<close> is read from the process environment at that moment.
\<close>

definition DEFAULT_NODE_ENV :: ref where
  "DEFAULT_NODE_ENV = 0"

definition DEFAULT_NODE_ENV_literal :: "environ \<Rightarrow> dict" where
  "DEFAULT_NODE_ENV_literal os_environ =
     [''RUST_BACKTRACE'' \<mapsto> ''full'',
      ''CL_LOG_LEVEL'' \<mapsto> (case os_environ ''CL_LOG_LEVEL'' of None \<Rightarrow> ''INFO'' | Some v \<Rightarrow> v),
      ''CL_SERVER_NO_UPNP'' \<mapsto> ''true'',
      ''CL_VERSION'' \<mapsto> ''test'']"

definition module_import :: "environ \<Rightarrow> store \<Rightarrow> store" where
  "module_import os_environ h = h(DEFAULT_NODE_ENV := DEFAULT_NODE_ENV_literal os_environ)"

text \<open>A store in which every dict object is empty: the state before the import.\<close>

definition empty_store :: store where
  "empty_store = (\<lambda>r. Map.empty)"

text \<open>
  \<^verbatim>\<open>__post_init__\<close>, lines 44 to 51. \<^verbatim>\<open>random_string\<close> is imported from another
  module: the string it returns is the parameter \<open>random_string_5\<close>. The assignment
  of line 48 stores the identity of the global dict, not a copy; the assignment of line 51
  writes into whichever dict object the field refers to.
\<close>

definition post_init ::
  "environ \<Rightarrow> string \<Rightarrow> store \<Rightarrow> ('client, 'key) DockerConfig
     \<Rightarrow> store \<times> ('client, 'key) DockerConfig" where
  "post_init os_environ random_string_5 h self =
     (let self1 = (if rand_str self = None then self\<lparr>rand_str := Some random_string_5\<rparr> else self);
          r = (case node_env self1 of None \<Rightarrow> DEFAULT_NODE_ENV | Some d \<Rightarrow> d);
          self2 = self1\<lparr>node_env := Some r\<rparr>
      in case os_environ ''_JAVA_OPTIONS'' of
           None \<Rightarrow> (h, self2)
         | Some java_options \<Rightarrow> (h(r := (h r)(''_JAVA_OPTIONS'' \<mapsto> java_options)), self2))"

text \<open>
  The constructor the dataclass decorator generates from the field list: each field takes
  the argument, or its default where the caller gave none, and \<^verbatim>\<open>__post_init__\<close> runs.
  Neither the field list nor \<^verbatim>\<open>__post_init__\<close> checks a value.
\<close>

definition DockerConfig_new ::
  "environ \<Rightarrow> string \<Rightarrow> store \<Rightarrow> 'client \<Rightarrow> 'key \<Rightarrow> kwargs
     \<Rightarrow> store \<times> ('client, 'key) DockerConfig" where
  "DockerConfig_new os_environ random_string_5 h client private_key kw =
     post_init os_environ random_string_5 h
       \<lparr>docker_client = client,
        node_private_key = private_key,
        node_public_key = kw_node_public_key kw,
        node_env = kw_node_env kw,
        network = kw_network kw,
        number = (case kw_number kw of None \<Rightarrow> 0 | Some n \<Rightarrow> n),
        rand_str = kw_rand_str kw,
        command_timeout = (case kw_command_timeout kw of None \<Rightarrow> 180 | Some t \<Rightarrow> t),
        mem_limit = (case kw_mem_limit kw of None \<Rightarrow> ''4G'' | Some m \<Rightarrow> m),
        is_bootstrap = (case kw_is_bootstrap kw of None \<Rightarrow> False | Some b \<Rightarrow> b),
        is_validator = (case kw_is_validator kw of None \<Rightarrow> True | Some b \<Rightarrow> b),
        is_signed_deploy = (case kw_is_signed_deploy kw of None \<Rightarrow> True | Some b \<Rightarrow> b),
        bootstrap_address = kw_bootstrap_address kw,
        initial_motes = (case kw_initial_motes kw of None \<Rightarrow> 100 * (10 ^ 9) | Some m \<Rightarrow> m),
        socket_volume = kw_socket_volume kw,
        node_account = kw_node_account kw,
        grpc_encryption = (case kw_grpc_encryption kw of None \<Rightarrow> False | Some b \<Rightarrow> b),
        is_read_only = (case kw_is_read_only kw of None \<Rightarrow> False | Some b \<Rightarrow> b)\<rparr>"

section \<open>Derived paths and options\<close>

text \<open>Python's \<^verbatim>\<open>str\<close> of an integer, as the f-strings of lines 54 and 57 format it.\<close>

definition digit_char :: "nat \<Rightarrow> char" where
  "digit_char d = ''0123456789'' ! d"

function str_nat :: "nat \<Rightarrow> string" where
  "str_nat n = (if n < 10 then [digit_char n] else str_nat (n div 10) @ [digit_char (n mod 10)])"
  by pat_completeness auto
termination
  by (relation "measure (\<lambda>n. n)") auto

declare str_nat.simps [simp del]

definition str_int :: "int \<Rightarrow> string" where
  "str_int i = (if i < 0 then CHR ''-'' # str_nat (nat (- i)) else str_nat (nat i))"

text \<open>
  \<^verbatim>\<open>BOOTSTRAP_PATH\<close> is a constant of another module; it is a parameter here.
\<close>

definition tls_certificate_path :: "string \<Rightarrow> ('client, 'key) DockerConfig \<Rightarrow> string" where
  "tls_certificate_path BOOTSTRAP_PATH self =
     BOOTSTRAP_PATH @ ''/node-'' @ str_int (number self) @ ''.certificate.pem''"

definition tls_key_path :: "string \<Rightarrow> ('client, 'key) DockerConfig \<Rightarrow> string" where
  "tls_key_path BOOTSTRAP_PATH self =
     BOOTSTRAP_PATH @ ''/node-'' @ str_int (number self) @ ''.key.pem''"

text \<open>
  The truth value Python gives an optional string in a condition: \<^verbatim>\<open>None\<close> and the
  empty string are false.
\<close>

definition truthy :: "string option \<Rightarrow> bool" where
  "truthy s = (case s of None \<Rightarrow> False | Some v \<Rightarrow> v \<noteq> [])"

text \<open>\<^verbatim>\<open>node_command_options\<close>, lines 68 to 87.\<close>

definition node_command_options ::
  "string \<Rightarrow> ('client, string) DockerConfig \<Rightarrow> string \<Rightarrow> dict" where
  "node_command_options BOOTSTRAP_PATH self server_host =
     (let options0 =
            [''--server-default-timeout'' \<mapsto> ''10second'',
             ''--server-host'' \<mapsto> server_host,
             ''--grpc-socket'' \<mapsto> ''/root/.casperlabs/sockets/.casper-node.sock'',
             ''--metrics-prometheus'' \<mapsto> '''',
             ''--tls-certificate'' \<mapsto> tls_certificate_path BOOTSTRAP_PATH self,
             ''--tls-key'' \<mapsto> tls_key_path BOOTSTRAP_PATH self,
             ''--tls-api-certificate'' \<mapsto> tls_certificate_path BOOTSTRAP_PATH self,
             ''--tls-api-key'' \<mapsto> tls_key_path BOOTSTRAP_PATH self];
          options1 = (if \<not> is_read_only self
                      then options0(''--casper-validator-private-key'' \<mapsto> node_private_key self)
                      else options0);
          options2 = (if grpc_encryption self
                      then options1(''--grpc-use-tls'' \<mapsto> '''')
                      else options1);
          options3 = (if truthy (bootstrap_address self)
                      then (case bootstrap_address self of
                              Some a \<Rightarrow> options2(''--server-bootstrap'' \<mapsto> a)
                            | None \<Rightarrow> options2)
                      else options2);
          options4 = (if truthy (node_public_key self)
                      then (case node_public_key self of
                              Some k \<Rightarrow> options3(''--casper-validator-public-key'' \<mapsto> k)
                            | None \<Rightarrow> options3)
                      else options3)
      in options4)"

section \<open>Lemmas about the constructor\<close>

lemma str_nat_digit: "n < 10 \<Longrightarrow> str_nat n = [digit_char n]"
  by (simp add: str_nat.simps)

lemma str_int_0: "str_int 0 = ''0''"
  by (simp add: str_int_def str_nat_digit digit_char_def)

lemma str_int_3: "str_int 3 = ''3''"
  by (simp add: str_int_def str_nat_digit digit_char_def)

text \<open>The fields of a constructed instance that the option map reads.\<close>

lemma new_option_fields:
  "is_read_only (snd (DockerConfig_new E rnd h c k kw)) =
     (case kw_is_read_only kw of None \<Rightarrow> False | Some b \<Rightarrow> b)"
  "grpc_encryption (snd (DockerConfig_new E rnd h c k kw)) =
     (case kw_grpc_encryption kw of None \<Rightarrow> False | Some b \<Rightarrow> b)"
  "bootstrap_address (snd (DockerConfig_new E rnd h c k kw)) = kw_bootstrap_address kw"
  "node_public_key (snd (DockerConfig_new E rnd h c k kw)) = kw_node_public_key kw"
  "node_private_key (snd (DockerConfig_new E rnd h c k kw)) = k"
  "number (snd (DockerConfig_new E rnd h c k kw)) = (case kw_number kw of None \<Rightarrow> 0 | Some n \<Rightarrow> n)"
  "is_validator (snd (DockerConfig_new E rnd h c k kw)) =
     (case kw_is_validator kw of None \<Rightarrow> True | Some b \<Rightarrow> b)"
  "is_bootstrap (snd (DockerConfig_new E rnd h c k kw)) =
     (case kw_is_bootstrap kw of None \<Rightarrow> False | Some b \<Rightarrow> b)"
  unfolding DockerConfig_new_def post_init_def Let_def
  by (cases "E ''_JAVA_OPTIONS''"; cases "kw_rand_str kw"; simp)+

lemma new_other_fields:
  "docker_client (snd (DockerConfig_new E rnd h c k kw)) = c"
  "network (snd (DockerConfig_new E rnd h c k kw)) = kw_network kw"
  "command_timeout (snd (DockerConfig_new E rnd h c k kw)) =
     (case kw_command_timeout kw of None \<Rightarrow> 180 | Some t \<Rightarrow> t)"
  "mem_limit (snd (DockerConfig_new E rnd h c k kw)) =
     (case kw_mem_limit kw of None \<Rightarrow> ''4G'' | Some m \<Rightarrow> m)"
  "is_signed_deploy (snd (DockerConfig_new E rnd h c k kw)) =
     (case kw_is_signed_deploy kw of None \<Rightarrow> True | Some b \<Rightarrow> b)"
  "initial_motes (snd (DockerConfig_new E rnd h c k kw)) =
     (case kw_initial_motes kw of None \<Rightarrow> 100 * (10 ^ 9) | Some m \<Rightarrow> m)"
  "socket_volume (snd (DockerConfig_new E rnd h c k kw)) = kw_socket_volume kw"
  "node_account (snd (DockerConfig_new E rnd h c k kw)) = kw_node_account kw"
  unfolding DockerConfig_new_def post_init_def Let_def
  by (cases "E ''_JAVA_OPTIONS''"; cases "kw_rand_str kw"; simp)+

lemma new_node_env:
  "node_env (snd (DockerConfig_new E rnd h c k kw)) =
     Some (case kw_node_env kw of None \<Rightarrow> DEFAULT_NODE_ENV | Some d \<Rightarrow> d)"
  unfolding DockerConfig_new_def post_init_def Let_def
  by (cases "E ''_JAVA_OPTIONS''"; cases "kw_rand_str kw"; simp)

lemma new_rand_str:
  "rand_str (snd (DockerConfig_new E rnd h c k kw)) =
     Some (case kw_rand_str kw of None \<Rightarrow> rnd | Some s \<Rightarrow> s)"
  unfolding DockerConfig_new_def post_init_def Let_def
  by (cases "E ''_JAVA_OPTIONS''"; cases "kw_rand_str kw"; simp)

text \<open>The store after a construction: one key of one dict object is written, or nothing.\<close>

lemma new_store:
  "fst (DockerConfig_new E rnd h c k kw) =
     (case E ''_JAVA_OPTIONS'' of
        None \<Rightarrow> h
      | Some v \<Rightarrow> h((case kw_node_env kw of None \<Rightarrow> DEFAULT_NODE_ENV | Some d \<Rightarrow> d) :=
                    (h (case kw_node_env kw of None \<Rightarrow> DEFAULT_NODE_ENV | Some d \<Rightarrow> d))
                      (''_JAVA_OPTIONS'' \<mapsto> v)))"
  unfolding DockerConfig_new_def post_init_def Let_def
  by (cases "E ''_JAVA_OPTIONS''"; cases "kw_rand_str kw"; cases "kw_node_env kw"; simp)

lemma dom_new_store:
  "dom (h r) \<subseteq> dom (fst (DockerConfig_new E rnd h c k kw) r)"
  by (auto simp add: new_store split: option.splits)

lemma module_import_default:
  "module_import E h DEFAULT_NODE_ENV = DEFAULT_NODE_ENV_literal E"
  by (simp add: module_import_def)

lemma baseline_keys_literal:
  "{''RUST_BACKTRACE'', ''CL_LOG_LEVEL'', ''CL_SERVER_NO_UPNP'', ''CL_VERSION''}
     \<subseteq> dom (DEFAULT_NODE_ENV_literal E)"
  by (simp add: DEFAULT_NODE_ENV_literal_def)

text \<open>
  The four baseline keys are in the global dict after the import, and no construction
  removes a key from any dict.
\<close>

lemma baseline_keys_after_import:
  "{''RUST_BACKTRACE'', ''CL_LOG_LEVEL'', ''CL_SERVER_NO_UPNP'', ''CL_VERSION''}
     \<subseteq> dom (module_import E h DEFAULT_NODE_ENV)"
  unfolding module_import_default by (rule baseline_keys_literal)

lemma baseline_keys_preserved:
  assumes "{''RUST_BACKTRACE'', ''CL_LOG_LEVEL'', ''CL_SERVER_NO_UPNP'', ''CL_VERSION''}
             \<subseteq> dom (h DEFAULT_NODE_ENV)"
  shows "{''RUST_BACKTRACE'', ''CL_LOG_LEVEL'', ''CL_SERVER_NO_UPNP'', ''CL_VERSION''}
           \<subseteq> dom (fst (DockerConfig_new E rnd h c k kw) DEFAULT_NODE_ENV)"
  using assms dom_new_store by (rule subset_trans)

text \<open>
  When the process environment holds \<^verbatim>\<open>_JAVA_OPTIONS\<close>, the instance's environment
  maps that key to its value after the construction.
\<close>

lemma java_options_merged:
  assumes "E ''_JAVA_OPTIONS'' = Some V" and "DockerConfig_new E rnd h c k kw = (h', self)"
  shows "\<exists>r. node_env self = Some r \<and> h' r ''_JAVA_OPTIONS'' = Some V"
proof -
  from assms(2) have s: "self = snd (DockerConfig_new E rnd h c k kw)"
    and h: "h' = fst (DockerConfig_new E rnd h c k kw)"
    by simp_all
  show ?thesis
    unfolding s h using assms(1) by (simp add: new_node_env new_store)
qed

lemma java_options_untouched:
  assumes "E ''_JAVA_OPTIONS'' = None"
  shows "fst (DockerConfig_new E rnd h c k kw) = h"
  using assms by (simp add: new_store)

text \<open>
  With the override unset and no environment argument, the instance's environment has the
  key only if the global dict had it before the call.
\<close>

lemma java_options_from_global:
  assumes "E ''_JAVA_OPTIONS'' = None" and "kw_node_env kw = None"
  shows "node_env (snd (DockerConfig_new E rnd h c k kw)) = Some DEFAULT_NODE_ENV \<and>
         fst (DockerConfig_new E rnd h c k kw) DEFAULT_NODE_ENV ''_JAVA_OPTIONS'' =
           h DEFAULT_NODE_ENV ''_JAVA_OPTIONS''"
  using assms by (simp add: new_store new_node_env)

section \<open>Lemmas about the option map\<close>

text \<open>
  Four conditional writes on top of a map, read at one key: the last write that happened
  and hit the key wins.
\<close>

lemma conditional_updates_lookup:
  "(let options0 = m0;
        options1 = (if a then options0(k1 \<mapsto> v1) else options0);
        options2 = (if b then options1(k2 \<mapsto> v2) else options1);
        options3 = (if c then (case ob of Some x \<Rightarrow> options2(k3 \<mapsto> x) | None \<Rightarrow> options2)
                    else options2);
        options4 = (if d then (case op of Some x \<Rightarrow> options3(k4 \<mapsto> x) | None \<Rightarrow> options3)
                    else options3)
    in options4) key =
   (if d \<and> op \<noteq> None \<and> key = k4 then op
    else if c \<and> ob \<noteq> None \<and> key = k3 then ob
    else if b \<and> key = k2 then Some v2
    else if a \<and> key = k1 then Some v1
    else m0 key)"
  by (cases a; cases b; cases c; cases d; cases ob; cases op; simp)

lemma node_command_options_lookup:
  "node_command_options B self host key =
   (if truthy (node_public_key self) \<and> node_public_key self \<noteq> None
         \<and> key = ''--casper-validator-public-key'' then node_public_key self
    else if truthy (bootstrap_address self) \<and> bootstrap_address self \<noteq> None
         \<and> key = ''--server-bootstrap'' then bootstrap_address self
    else if grpc_encryption self \<and> key = ''--grpc-use-tls'' then Some ''''
    else if \<not> is_read_only self \<and> key = ''--casper-validator-private-key''
         then Some (node_private_key self)
    else [''--server-default-timeout'' \<mapsto> ''10second'',
          ''--server-host'' \<mapsto> host,
          ''--grpc-socket'' \<mapsto> ''/root/.casperlabs/sockets/.casper-node.sock'',
          ''--metrics-prometheus'' \<mapsto> '''',
          ''--tls-certificate'' \<mapsto> tls_certificate_path B self,
          ''--tls-key'' \<mapsto> tls_key_path B self,
          ''--tls-api-certificate'' \<mapsto> tls_certificate_path B self,
          ''--tls-api-key'' \<mapsto> tls_key_path B self] key)"
  by (simp only: node_command_options_def conditional_updates_lookup)

text \<open>The option map of an instance constructed from the two required arguments only.\<close>

lemma options_default:
  "node_command_options B (snd (DockerConfig_new E rnd h client key no_kwargs)) host =
     [''--server-default-timeout'' \<mapsto> ''10second'',
      ''--server-host'' \<mapsto> host,
      ''--grpc-socket'' \<mapsto> ''/root/.casperlabs/sockets/.casper-node.sock'',
      ''--metrics-prometheus'' \<mapsto> '''',
      ''--tls-certificate'' \<mapsto> B @ ''/node-0.certificate.pem'',
      ''--tls-key'' \<mapsto> B @ ''/node-0.key.pem'',
      ''--tls-api-certificate'' \<mapsto> B @ ''/node-0.certificate.pem'',
      ''--tls-api-key'' \<mapsto> B @ ''/node-0.key.pem'',
      ''--casper-validator-private-key'' \<mapsto> key]"
  by (simp add: node_command_options_def new_option_fields no_kwargs_def truthy_def
        tls_certificate_path_def tls_key_path_def str_int_0 Let_def)

text \<open>The option map of the end-to-end scenario, for any host.\<close>

lemma options_scenario:
  "node_command_options B
     (snd (DockerConfig_new E rnd h client key
        (no_kwargs\<lparr>kw_number := Some 3, kw_is_read_only := Some False,
                    kw_grpc_encryption := Some True,
                    kw_bootstrap_address := Some ''10.0.0.5:40400'',
                    kw_node_public_key := Some ''PUBKEY''\<rparr>))) host =
     [''--server-default-timeout'' \<mapsto> ''10second'',
      ''--server-host'' \<mapsto> host,
      ''--grpc-socket'' \<mapsto> ''/root/.casperlabs/sockets/.casper-node.sock'',
      ''--metrics-prometheus'' \<mapsto> '''',
      ''--tls-certificate'' \<mapsto> B @ ''/node-3.certificate.pem'',
      ''--tls-key'' \<mapsto> B @ ''/node-3.key.pem'',
      ''--tls-api-certificate'' \<mapsto> B @ ''/node-3.certificate.pem'',
      ''--tls-api-key'' \<mapsto> B @ ''/node-3.key.pem'',
      ''--casper-validator-private-key'' \<mapsto> key,
      ''--grpc-use-tls'' \<mapsto> '''',
      ''--server-bootstrap'' \<mapsto> ''10.0.0.5:40400'',
      ''--casper-validator-public-key'' \<mapsto> ''PUBKEY'']"
  by (simp add: node_command_options_def new_option_fields no_kwargs_def truthy_def
        tls_certificate_path_def tls_key_path_def str_int_3 Let_def)

lemma card_nine_flags:
  "card (dom [''--server-default-timeout'' \<mapsto> (v1::string),
      ''--server-host'' \<mapsto> v2,
      ''--grpc-socket'' \<mapsto> v3,
      ''--metrics-prometheus'' \<mapsto> v4,
      ''--tls-certificate'' \<mapsto> v5,
      ''--tls-key'' \<mapsto> v6,
      ''--tls-api-certificate'' \<mapsto> v7,
      ''--tls-api-key'' \<mapsto> v8,
      ''--casper-validator-private-key'' \<mapsto> v9]) = 9"
  by simp

lemma card_twelve_flags:
  "card (dom [''--server-default-timeout'' \<mapsto> (v1::string),
      ''--server-host'' \<mapsto> v2,
      ''--grpc-socket'' \<mapsto> v3,
      ''--metrics-prometheus'' \<mapsto> v4,
      ''--tls-certificate'' \<mapsto> v5,
      ''--tls-key'' \<mapsto> v6,
      ''--tls-api-certificate'' \<mapsto> v7,
      ''--tls-api-key'' \<mapsto> v8,
      ''--casper-validator-private-key'' \<mapsto> v9,
      ''--grpc-use-tls'' \<mapsto> v10,
      ''--server-bootstrap'' \<mapsto> v11,
      ''--casper-validator-public-key'' \<mapsto> v12]) = 12"
  by simp

lemma node_3_in_certificate_path: "sublist ''node-3'' (B @ ''/node-3.certificate.pem'')"
proof -
  have "B @ ''/node-3.certificate.pem'' = (B @ ''/'') @ ''node-3'' @ ''.certificate.pem''"
    by simp
  then show ?thesis
    unfolding sublist_def by blast
qed

section \<open>The option map\<close>

text \<open>
  C1, as amended. An instance constructed from the two required arguments only (not
  read-only, no gRPC encryption, no public key, no bootstrap address, number 0) has an
  option map of exactly nine entries: the request timeout, the server host, the gRPC socket
  path, the metrics marker, the two certificate flags, the two key flags and the validator
  private-key flag. The gRPC-TLS flag, the bootstrap flag and the public-key flag are
  absent.
\<close>

theorem default_node_options:
  "node_command_options B (snd (DockerConfig_new E rnd h client key no_kwargs)) host =
     [''--server-default-timeout'' \<mapsto> ''10second'',
      ''--server-host'' \<mapsto> host,
      ''--grpc-socket'' \<mapsto> ''/root/.casperlabs/sockets/.casper-node.sock'',
      ''--metrics-prometheus'' \<mapsto> '''',
      ''--tls-certificate'' \<mapsto> B @ ''/node-0.certificate.pem'',
      ''--tls-key'' \<mapsto> B @ ''/node-0.key.pem'',
      ''--tls-api-certificate'' \<mapsto> B @ ''/node-0.certificate.pem'',
      ''--tls-api-key'' \<mapsto> B @ ''/node-0.key.pem'',
      ''--casper-validator-private-key'' \<mapsto> key] \<and>
   card (dom (node_command_options B (snd (DockerConfig_new E rnd h client key no_kwargs)) host)) = 9 \<and>
   node_command_options B (snd (DockerConfig_new E rnd h client key no_kwargs)) host
     ''--grpc-use-tls'' = None \<and>
   node_command_options B (snd (DockerConfig_new E rnd h client key no_kwargs)) host
     ''--server-bootstrap'' = None \<and>
   node_command_options B (snd (DockerConfig_new E rnd h client key no_kwargs)) host
     ''--casper-validator-public-key'' = None"
proof (intro conjI)
  show "card (dom (node_command_options B (snd (DockerConfig_new E rnd h client key no_kwargs)) host)) = 9"
    by (simp only: options_default card_nine_flags)
  show "node_command_options B (snd (DockerConfig_new E rnd h client key no_kwargs)) host
     ''--grpc-use-tls'' = None"
    by (simp add: node_command_options_lookup new_option_fields no_kwargs_def truthy_def)
  show "node_command_options B (snd (DockerConfig_new E rnd h client key no_kwargs)) host
     ''--server-bootstrap'' = None"
    by (simp add: node_command_options_lookup new_option_fields no_kwargs_def truthy_def)
  show "node_command_options B (snd (DockerConfig_new E rnd h client key no_kwargs)) host
     ''--casper-validator-public-key'' = None"
    by (simp add: node_command_options_lookup new_option_fields no_kwargs_def truthy_def)
qed (rule options_default)

text \<open>
  The count of C1 as the specification words it, eight entries, fails on a concrete
  default-constructed node: the map has nine.
\<close>

theorem default_node_options_not_eight:
  "card (dom (node_command_options ''/root/.casperlabs/bootstrap''
      (snd (DockerConfig_new Map.empty ''abcde'' (module_import Map.empty empty_store)
         (1::DockerClient) ''KEY'' no_kwargs)) ''10.0.0.9'')) = 9 \<and>
   card (dom (node_command_options ''/root/.casperlabs/bootstrap''
      (snd (DockerConfig_new Map.empty ''abcde'' (module_import Map.empty empty_store)
         (1::DockerClient) ''KEY'' no_kwargs)) ''10.0.0.9'')) \<noteq> 8"
  by (simp only: options_default card_nine_flags) simp

text \<open>
  C2, as amended. The instance built with number 3, not read-only, gRPC encryption on,
  bootstrap address 10.0.0.5:40400 and public key PUBKEY has, for the host 10.0.0.9, an
  option map of exactly twelve entries: the eight fixed flags, the validator private-key
  flag, the encryption marker, the bootstrap address and the public key. The server-host
  flag is 10.0.0.9 and both certificate flags hold a path that contains node-3.
\<close>

theorem scenario_options:
  "node_command_options B
     (snd (DockerConfig_new E rnd h client key
        (no_kwargs\<lparr>kw_number := Some 3, kw_is_read_only := Some False,
                    kw_grpc_encryption := Some True,
                    kw_bootstrap_address := Some ''10.0.0.5:40400'',
                    kw_node_public_key := Some ''PUBKEY''\<rparr>))) ''10.0.0.9'' =
     [''--server-default-timeout'' \<mapsto> ''10second'',
      ''--server-host'' \<mapsto> ''10.0.0.9'',
      ''--grpc-socket'' \<mapsto> ''/root/.casperlabs/sockets/.casper-node.sock'',
      ''--metrics-prometheus'' \<mapsto> '''',
      ''--tls-certificate'' \<mapsto> B @ ''/node-3.certificate.pem'',
      ''--tls-key'' \<mapsto> B @ ''/node-3.key.pem'',
      ''--tls-api-certificate'' \<mapsto> B @ ''/node-3.certificate.pem'',
      ''--tls-api-key'' \<mapsto> B @ ''/node-3.key.pem'',
      ''--casper-validator-private-key'' \<mapsto> key,
      ''--grpc-use-tls'' \<mapsto> '''',
      ''--server-bootstrap'' \<mapsto> ''10.0.0.5:40400'',
      ''--casper-validator-public-key'' \<mapsto> ''PUBKEY''] \<and>
   card (dom (node_command_options B
     (snd (DockerConfig_new E rnd h client key
        (no_kwargs\<lparr>kw_number := Some 3, kw_is_read_only := Some False,
                    kw_grpc_encryption := Some True,
                    kw_bootstrap_address := Some ''10.0.0.5:40400'',
                    kw_node_public_key := Some ''PUBKEY''\<rparr>))) ''10.0.0.9'')) = 12 \<and>
   tls_certificate_path B
     (snd (DockerConfig_new E rnd h client key
        (no_kwargs\<lparr>kw_number := Some 3, kw_is_read_only := Some False,
                    kw_grpc_encryption := Some True,
                    kw_bootstrap_address := Some ''10.0.0.5:40400'',
                    kw_node_public_key := Some ''PUBKEY''\<rparr>))) = B @ ''/node-3.certificate.pem'' \<and>
   sublist ''node-3'' (B @ ''/node-3.certificate.pem'')"
proof (intro conjI)
  show "card (dom (node_command_options B
     (snd (DockerConfig_new E rnd h client key
        (no_kwargs\<lparr>kw_number := Some 3, kw_is_read_only := Some False,
                    kw_grpc_encryption := Some True,
                    kw_bootstrap_address := Some ''10.0.0.5:40400'',
                    kw_node_public_key := Some ''PUBKEY''\<rparr>))) ''10.0.0.9'')) = 12"
    by (simp only: options_scenario card_twelve_flags)
  show "tls_certificate_path B
     (snd (DockerConfig_new E rnd h client key
        (no_kwargs\<lparr>kw_number := Some 3, kw_is_read_only := Some False,
                    kw_grpc_encryption := Some True,
                    kw_bootstrap_address := Some ''10.0.0.5:40400'',
                    kw_node_public_key := Some ''PUBKEY''\<rparr>))) = B @ ''/node-3.certificate.pem''"
    by (simp add: tls_certificate_path_def new_option_fields no_kwargs_def str_int_3)
  show "sublist ''node-3'' (B @ ''/node-3.certificate.pem'')"
    by (rule node_3_in_certificate_path)
qed (rule options_scenario)

text \<open>
  The total of C2 as the specification words it, eleven entries, fails on the scenario's
  own input: the map has twelve.
\<close>

theorem scenario_options_not_eleven:
  "card (dom (node_command_options ''/root/.casperlabs/bootstrap''
     (snd (DockerConfig_new Map.empty ''abcde'' (module_import Map.empty empty_store) (1::DockerClient) ''KEY''
        (no_kwargs\<lparr>kw_number := Some 3, kw_is_read_only := Some False,
                    kw_grpc_encryption := Some True,
                    kw_bootstrap_address := Some ''10.0.0.5:40400'',
                    kw_node_public_key := Some ''PUBKEY''\<rparr>))) ''10.0.0.9'')) = 12 \<and>
   card (dom (node_command_options ''/root/.casperlabs/bootstrap''
     (snd (DockerConfig_new Map.empty ''abcde'' (module_import Map.empty empty_store) (1::DockerClient) ''KEY''
        (no_kwargs\<lparr>kw_number := Some 3, kw_is_read_only := Some False,
                    kw_grpc_encryption := Some True,
                    kw_bootstrap_address := Some ''10.0.0.5:40400'',
                    kw_node_public_key := Some ''PUBKEY''\<rparr>))) ''10.0.0.9'')) \<noteq> 11"
  by (simp only: options_scenario card_twelve_flags) simp

text \<open>
  C3. Whatever the other fields are: a read-only instance has no validator private-key
  flag in its option map, and an instance that is not read-only has the flag, mapped to its
  private key.
\<close>

theorem private_key_flag:
  "(is_read_only c \<longrightarrow>
      node_command_options B c host ''--casper-validator-private-key'' = None) \<and>
   (\<not> is_read_only c \<longrightarrow>
      node_command_options B c host ''--casper-validator-private-key'' =
        Some (node_private_key c))"
  by (simp add: node_command_options_lookup)

theorem private_key_flag_witness:
  "node_command_options ''/root/.casperlabs/bootstrap''
     (snd (DockerConfig_new Map.empty ''abcde'' (module_import Map.empty empty_store) (1::DockerClient) ''KEY''
        (no_kwargs\<lparr>kw_is_read_only := Some True, kw_grpc_encryption := Some True,
                    kw_node_public_key := Some ''PUBKEY''\<rparr>)))
     ''10.0.0.9'' ''--casper-validator-private-key'' = None \<and>
   node_command_options ''/root/.casperlabs/bootstrap''
     (snd (DockerConfig_new Map.empty ''abcde'' (module_import Map.empty empty_store) (1::DockerClient) ''KEY''
        (no_kwargs\<lparr>kw_is_read_only := Some False\<rparr>)))
     ''10.0.0.9'' ''--casper-validator-private-key'' = Some ''KEY''"
  using
    private_key_flag [of "snd (DockerConfig_new Map.empty ''abcde''
        (module_import Map.empty empty_store) (1::DockerClient) ''KEY''
        (no_kwargs\<lparr>kw_is_read_only := Some True, kw_grpc_encryption := Some True,
                    kw_node_public_key := Some ''PUBKEY''\<rparr>))"
      "''/root/.casperlabs/bootstrap''" "''10.0.0.9''"]
    private_key_flag [of "snd (DockerConfig_new Map.empty ''abcde''
        (module_import Map.empty empty_store) (1::DockerClient) ''KEY''
        (no_kwargs\<lparr>kw_is_read_only := Some False\<rparr>))"
      "''/root/.casperlabs/bootstrap''" "''10.0.0.9''"]
  by (simp add: new_option_fields)

text \<open>
  C4, as amended. For every instance and host: the gRPC-TLS marker is in the option map,
  with an empty value, exactly when \<open>grpc_encryption\<close> is true; the bootstrap flag is
  in the map exactly when \<open>bootstrap_address\<close> is a non-empty string, and then holds
  that string; the validator public-key flag is in the map exactly when
  \<open>node_public_key\<close> is a non-empty string, and then holds that string. An empty
  string counts as not set.
\<close>

theorem optional_flags:
  "(node_command_options B c host ''--grpc-use-tls'' = Some '''') = grpc_encryption c \<and>
   (''--grpc-use-tls'' \<in> dom (node_command_options B c host)) = grpc_encryption c \<and>
   node_command_options B c host ''--server-bootstrap'' =
     (case bootstrap_address c of None \<Rightarrow> None | Some a \<Rightarrow> if a = [] then None else Some a) \<and>
   node_command_options B c host ''--casper-validator-public-key'' =
     (case node_public_key c of None \<Rightarrow> None | Some k \<Rightarrow> if k = [] then None else Some k)"
  by (simp add: dom_def node_command_options_lookup truthy_def split: option.splits)

text \<open>
  C4 as the specification words it fails where the bootstrap address is set to the empty
  string: the field is set, and the flag is absent.
\<close>

theorem empty_bootstrap_address_no_flag:
  "bootstrap_address
     (snd (DockerConfig_new Map.empty ''abcde'' (module_import Map.empty empty_store) (1::DockerClient) ''KEY''
        (no_kwargs\<lparr>kw_bootstrap_address := Some ''''\<rparr>))) = Some '''' \<and>
   node_command_options ''/root/.casperlabs/bootstrap''
     (snd (DockerConfig_new Map.empty ''abcde'' (module_import Map.empty empty_store) (1::DockerClient) ''KEY''
        (no_kwargs\<lparr>kw_bootstrap_address := Some ''''\<rparr>)))
     ''10.0.0.9'' ''--server-bootstrap'' = None"
  by (simp add: node_command_options_lookup new_option_fields no_kwargs_def truthy_def)

text \<open>
  C9. The certificate path and the key path depend on the node number only: two instances
  with the same number, whatever their other fields, give the same two strings.
\<close>

theorem tls_paths_number_only:
  "number c1 = number c2 \<Longrightarrow>
     tls_certificate_path B c1 = tls_certificate_path B c2 \<and>
     tls_key_path B c1 = tls_key_path B c2"
  by (simp add: tls_certificate_path_def tls_key_path_def)

theorem tls_paths_number_only_witness:
  "node_private_key
     (snd (DockerConfig_new Map.empty ''abcde'' (module_import Map.empty empty_store) (1::DockerClient) ''KEY''
        (no_kwargs\<lparr>kw_number := Some 3\<rparr>))) \<noteq>
   node_private_key
     (snd (DockerConfig_new Map.empty ''vwxyz'' (module_import Map.empty empty_store) (2::DockerClient) ''OTHER''
        (no_kwargs\<lparr>kw_number := Some 3, kw_is_read_only := Some True\<rparr>))) \<and>
   tls_certificate_path ''/root/.casperlabs/bootstrap''
     (snd (DockerConfig_new Map.empty ''abcde'' (module_import Map.empty empty_store) (1::DockerClient) ''KEY''
        (no_kwargs\<lparr>kw_number := Some 3\<rparr>))) =
   tls_certificate_path ''/root/.casperlabs/bootstrap''
     (snd (DockerConfig_new Map.empty ''vwxyz'' (module_import Map.empty empty_store) (2::DockerClient) ''OTHER''
        (no_kwargs\<lparr>kw_number := Some 3, kw_is_read_only := Some True\<rparr>))) \<and>
   tls_key_path ''/root/.casperlabs/bootstrap''
     (snd (DockerConfig_new Map.empty ''abcde'' (module_import Map.empty empty_store) (1::DockerClient) ''KEY''
        (no_kwargs\<lparr>kw_number := Some 3\<rparr>))) =
   tls_key_path ''/root/.casperlabs/bootstrap''
     (snd (DockerConfig_new Map.empty ''vwxyz'' (module_import Map.empty empty_store) (2::DockerClient) ''OTHER''
        (no_kwargs\<lparr>kw_number := Some 3, kw_is_read_only := Some True\<rparr>)))"
proof -
  have n: "number
     (snd (DockerConfig_new Map.empty ''abcde'' (module_import Map.empty empty_store) (1::DockerClient) ''KEY''
        (no_kwargs\<lparr>kw_number := Some 3\<rparr>))) =
   number
     (snd (DockerConfig_new Map.empty ''vwxyz'' (module_import Map.empty empty_store) (2::DockerClient) ''OTHER''
        (no_kwargs\<lparr>kw_number := Some 3, kw_is_read_only := Some True\<rparr>)))"
    by (simp add: new_option_fields)
  show ?thesis
    using tls_paths_number_only [OF n, of "''/root/.casperlabs/bootstrap''"]
    by (simp add: new_option_fields)
qed

text \<open>
  C10. The option map does not read \<open>is_validator\<close>: changing that field alone leaves
  the map as it was, for every host; whether the validator private-key flag is in the map
  is decided by \<open>is_read_only\<close> alone.
\<close>

theorem is_validator_irrelevant:
  "node_command_options B (c\<lparr>is_validator := v\<rparr>) host = node_command_options B c host \<and>
   (''--casper-validator-private-key'' \<in> dom (node_command_options B c host)) =
     (\<not> is_read_only c)"
proof
  show "node_command_options B (c\<lparr>is_validator := v\<rparr>) host = node_command_options B c host"
    by (rule ext) (simp add: node_command_options_lookup tls_certificate_path_def tls_key_path_def)
  show "(''--casper-validator-private-key'' \<in> dom (node_command_options B c host)) =
     (\<not> is_read_only c)"
    by (simp add: dom_def node_command_options_lookup)
qed

section \<open>The environment\<close>

text \<open>
  C5. The claim: with the process-wide Java-options override unset at construction time,
  the key \<^verbatim>\<open>_JAVA_OPTIONS\<close> is absent from the instance's environment unless the
  caller supplied it. The code at a concrete run: a first instance is constructed, with no
  environment argument, while the override is set to \<^verbatim>\<open>-Xmx1g\<close>; a second one is
  constructed, again with no environment argument, after the override has been unset. The
  environment of the second instance holds the key all the same, with the value the first
  construction wrote into the module's global dict.
\<close>

theorem java_options_leak:
  "module_import Map.empty empty_store DEFAULT_NODE_ENV ''_JAVA_OPTIONS'' = None \<and>
   kw_node_env no_kwargs = None \<and>
   node_env (snd (DockerConfig_new Map.empty ''vwxyz''
       (fst (DockerConfig_new [''_JAVA_OPTIONS'' \<mapsto> ''-Xmx1g''] ''abcde''
          (module_import Map.empty empty_store) (1::DockerClient) ''KEY'' no_kwargs))
       (2::DockerClient) ''OTHER'' no_kwargs)) = Some DEFAULT_NODE_ENV \<and>
   fst (DockerConfig_new Map.empty ''vwxyz''
       (fst (DockerConfig_new [''_JAVA_OPTIONS'' \<mapsto> ''-Xmx1g''] ''abcde''
          (module_import Map.empty empty_store) (1::DockerClient) ''KEY'' no_kwargs))
       (2::DockerClient) ''OTHER'' no_kwargs) DEFAULT_NODE_ENV ''_JAVA_OPTIONS'' = Some ''-Xmx1g''"
  by (simp add: new_node_env new_store module_import_default DEFAULT_NODE_ENV_literal_def
        no_kwargs_def)

text \<open>
  C6. The claim: instances that default to the baseline environment each get a copy of
  their own. The code at a concrete run: a first instance is constructed with no
  environment argument and no override, so its environment has no \<^verbatim>\<open>_JAVA_OPTIONS\<close>;
  a second one is constructed with no environment argument while the override is set.
  Both instances refer to the one global dict, and after the second construction the
  environment of the first holds \<^verbatim>\<open>_JAVA_OPTIONS\<close>, as does the global.
\<close>

theorem default_env_shared:
  "node_env (snd (DockerConfig_new Map.empty ''abcde''
       (module_import Map.empty empty_store) (1::DockerClient) ''KEY'' no_kwargs)) = Some DEFAULT_NODE_ENV \<and>
   fst (DockerConfig_new Map.empty ''abcde''
       (module_import Map.empty empty_store) (1::DockerClient) ''KEY'' no_kwargs)
     DEFAULT_NODE_ENV ''_JAVA_OPTIONS'' = None \<and>
   node_env (snd (DockerConfig_new [''_JAVA_OPTIONS'' \<mapsto> ''-Xmx1g''] ''vwxyz''
       (fst (DockerConfig_new Map.empty ''abcde''
          (module_import Map.empty empty_store) (1::DockerClient) ''KEY'' no_kwargs))
       (2::DockerClient) ''OTHER'' no_kwargs)) = Some DEFAULT_NODE_ENV \<and>
   fst (DockerConfig_new [''_JAVA_OPTIONS'' \<mapsto> ''-Xmx1g''] ''vwxyz''
       (fst (DockerConfig_new Map.empty ''abcde''
          (module_import Map.empty empty_store) (1::DockerClient) ''KEY'' no_kwargs))
       (2::DockerClient) ''OTHER'' no_kwargs) DEFAULT_NODE_ENV ''_JAVA_OPTIONS'' = Some ''-Xmx1g''"
  by (simp add: new_node_env new_store module_import_default DEFAULT_NODE_ENV_literal_def
        no_kwargs_def)

text \<open>
  C7, as amended. An instance constructed with no environment argument refers to the
  module's global dict, and when that dict holds the four baseline keys as the constructor
  starts (it does after the import, and no construction removes a key), the instance's
  environment holds them right after the construction, with the Java-options override
  present or not.
\<close>

theorem baseline_keys_default_env:
  assumes "kw_node_env kw = None"
    and "{''RUST_BACKTRACE'', ''CL_LOG_LEVEL'', ''CL_SERVER_NO_UPNP'', ''CL_VERSION''}
           \<subseteq> dom (h DEFAULT_NODE_ENV)"
    and "DockerConfig_new E rnd h c k kw = (h', self)"
  shows "node_env self = Some DEFAULT_NODE_ENV \<and>
         {''RUST_BACKTRACE'', ''CL_LOG_LEVEL'', ''CL_SERVER_NO_UPNP'', ''CL_VERSION''}
           \<subseteq> dom (h' DEFAULT_NODE_ENV)"
proof
  from assms(3) have s: "self = snd (DockerConfig_new E rnd h c k kw)"
    and h: "h' = fst (DockerConfig_new E rnd h c k kw)"
    by simp_all
  show "node_env self = Some DEFAULT_NODE_ENV"
    unfolding s using assms(1) by (simp add: new_node_env)
  show "{''RUST_BACKTRACE'', ''CL_LOG_LEVEL'', ''CL_SERVER_NO_UPNP'', ''CL_VERSION''}
           \<subseteq> dom (h' DEFAULT_NODE_ENV)"
    unfolding h using assms(2) by (rule baseline_keys_preserved)
qed

theorem baseline_keys_default_env_witness:
  "node_env (snd (DockerConfig_new [''_JAVA_OPTIONS'' \<mapsto> ''-Xmx1g''] ''abcde''
       (module_import Map.empty empty_store) (1::DockerClient) ''KEY'' no_kwargs)) = Some DEFAULT_NODE_ENV \<and>
   {''RUST_BACKTRACE'', ''CL_LOG_LEVEL'', ''CL_SERVER_NO_UPNP'', ''CL_VERSION''}
     \<subseteq> dom (fst (DockerConfig_new [''_JAVA_OPTIONS'' \<mapsto> ''-Xmx1g''] ''abcde''
       (module_import Map.empty empty_store) (1::DockerClient) ''KEY'' no_kwargs) DEFAULT_NODE_ENV)"
proof -
  have a: "kw_node_env no_kwargs = None"
    by (simp add: no_kwargs_def)
  have b: "{''RUST_BACKTRACE'', ''CL_LOG_LEVEL'', ''CL_SERVER_NO_UPNP'', ''CL_VERSION''}
     \<subseteq> dom (module_import Map.empty empty_store DEFAULT_NODE_ENV)"
    by (rule baseline_keys_after_import)
  have c: "DockerConfig_new [''_JAVA_OPTIONS'' \<mapsto> ''-Xmx1g''] ''abcde''
       (module_import Map.empty empty_store) (1::DockerClient) ''KEY'' no_kwargs =
     (fst (DockerConfig_new [''_JAVA_OPTIONS'' \<mapsto> ''-Xmx1g''] ''abcde''
       (module_import Map.empty empty_store) (1::DockerClient) ''KEY'' no_kwargs),
      snd (DockerConfig_new [''_JAVA_OPTIONS'' \<mapsto> ''-Xmx1g''] ''abcde''
       (module_import Map.empty empty_store) (1::DockerClient) ''KEY'' no_kwargs))"
    by simp
  show ?thesis
    using a b c by (rule baseline_keys_default_env)
qed

text \<open>
  C7 as the specification words it, for every constructed instance, fails where the caller
  passes an environment of its own: the instance keeps that dict (here the empty dict
  object 5), which has no baseline key.
\<close>

theorem caller_env_lacks_baseline:
  "node_env (snd (DockerConfig_new Map.empty ''abcde'' (module_import Map.empty empty_store)
       (1::DockerClient) ''KEY'' (no_kwargs\<lparr>kw_node_env := Some 5\<rparr>))) = Some 5 \<and>
   fst (DockerConfig_new Map.empty ''abcde'' (module_import Map.empty empty_store)
       (1::DockerClient) ''KEY'' (no_kwargs\<lparr>kw_node_env := Some 5\<rparr>)) 5 ''RUST_BACKTRACE'' = None"
  by (simp add: new_node_env new_store module_import_def DEFAULT_NODE_ENV_def empty_store_def)

section \<open>Construction\<close>

text \<open>
  C8, as amended. No field is validated at construction time. The constructor stores the
  docker client and the private key (whatever they are, \<^verbatim>\<open>None\<close> included), the number
  (negative or not), the role flags (in any combination) and every other field but the
  random suffix and the environment exactly as the caller gave them, or the default of the
  field list where the caller gave nothing.
\<close>

theorem construction_stores_arguments:
  "docker_client (snd (DockerConfig_new E rnd h client key kw)) = client \<and>
   node_private_key (snd (DockerConfig_new E rnd h client key kw)) = key \<and>
   node_public_key (snd (DockerConfig_new E rnd h client key kw)) = kw_node_public_key kw \<and>
   network (snd (DockerConfig_new E rnd h client key kw)) = kw_network kw \<and>
   number (snd (DockerConfig_new E rnd h client key kw)) =
     (case kw_number kw of None \<Rightarrow> 0 | Some n \<Rightarrow> n) \<and>
   command_timeout (snd (DockerConfig_new E rnd h client key kw)) =
     (case kw_command_timeout kw of None \<Rightarrow> 180 | Some t \<Rightarrow> t) \<and>
   mem_limit (snd (DockerConfig_new E rnd h client key kw)) =
     (case kw_mem_limit kw of None \<Rightarrow> ''4G'' | Some m \<Rightarrow> m) \<and>
   is_bootstrap (snd (DockerConfig_new E rnd h client key kw)) =
     (case kw_is_bootstrap kw of None \<Rightarrow> False | Some b \<Rightarrow> b) \<and>
   is_validator (snd (DockerConfig_new E rnd h client key kw)) =
     (case kw_is_validator kw of None \<Rightarrow> True | Some b \<Rightarrow> b) \<and>
   is_signed_deploy (snd (DockerConfig_new E rnd h client key kw)) =
     (case kw_is_signed_deploy kw of None \<Rightarrow> True | Some b \<Rightarrow> b) \<and>
   bootstrap_address (snd (DockerConfig_new E rnd h client key kw)) = kw_bootstrap_address kw \<and>
   initial_motes (snd (DockerConfig_new E rnd h client key kw)) =
     (case kw_initial_motes kw of None \<Rightarrow> 100 * (10 ^ 9) | Some m \<Rightarrow> m) \<and>
   socket_volume (snd (DockerConfig_new E rnd h client key kw)) = kw_socket_volume kw \<and>
   node_account (snd (DockerConfig_new E rnd h client key kw)) = kw_node_account kw \<and>
   grpc_encryption (snd (DockerConfig_new E rnd h client key kw)) =
     (case kw_grpc_encryption kw of None \<Rightarrow> False | Some b \<Rightarrow> b) \<and>
   is_read_only (snd (DockerConfig_new E rnd h client key kw)) =
     (case kw_is_read_only kw of None \<Rightarrow> False | Some b \<Rightarrow> b)"
  by (simp only: new_option_fields new_other_fields simp_thms)

text \<open>
  C8 as the specification words it fails at the call with \<^verbatim>\<open>None\<close> for the docker
  client, \<^verbatim>\<open>None\<close> for the private key and the number -1: the constructor returns an
  instance that has no client, no private key and the number -1.
\<close>

theorem none_identity_negative_number_stored:
  "docker_client (snd (DockerConfig_new Map.empty ''abcde'' (module_import Map.empty empty_store)
     (None :: DockerClient option) (None :: string option)
     (no_kwargs\<lparr>kw_number := Some (- 1)\<rparr>))) = None \<and>
   node_private_key (snd (DockerConfig_new Map.empty ''abcde''
     (module_import Map.empty empty_store)
     (None :: DockerClient option) (None :: string option)
     (no_kwargs\<lparr>kw_number := Some (- 1)\<rparr>))) = None \<and>
   number (snd (DockerConfig_new Map.empty ''abcde'' (module_import Map.empty empty_store)
     (None :: DockerClient option) (None :: string option)
     (no_kwargs\<lparr>kw_number := Some (- 1)\<rparr>))) = - 1"
  by (simp add: new_option_fields new_other_fields)

end
